theory Spec2Isabelle
  imports Main
begin

section \<open>Python values used by \<open>logger/__init__.py\<close>\<close>

text \<open>
  Strings are ASCII strings (\<open>char list\<close>); \<open>str.upper\<close> and \<open>str.lower\<close> are modelled on
  the ASCII letters only, where the two cases of a letter differ in the bit of value 32.
  Exceptions carry their message.
\<close>

datatype py_exception = ValueError string | TypeError string | OSError string

fun exc_str :: "py_exception \<Rightarrow> string" where
  "exc_str (ValueError m) = m"
| "exc_str (TypeError m) = m"
| "exc_str (OSError m) = m"

definition char_upper :: "char \<Rightarrow> char" where
  "char_upper c =
     (if c \<in> set ''abcdefghijklmnopqrstuvwxyz''
      then (case c of Char b0 b1 b2 b3 b4 b5 b6 b7 \<Rightarrow> Char b0 b1 b2 b3 b4 False b6 b7)
      else c)"

definition char_lower :: "char \<Rightarrow> char" where
  "char_lower c =
     (if c \<in> set ''ABCDEFGHIJKLMNOPQRSTUVWXYZ''
      then (case c of Char b0 b1 b2 b3 b4 b5 b6 b7 \<Rightarrow> Char b0 b1 b2 b3 b4 True b6 b7)
      else c)"

definition str_upper :: "string \<Rightarrow> string" where
  "str_upper s = map char_upper s"

definition str_lower :: "string \<Rightarrow> string" where
  "str_lower s = map char_lower s"

text \<open>\<open>str(b)\<close> for a Python bool.\<close>

definition str_bool :: "bool \<Rightarrow> string" where
  "str_bool b = (if b then ''True'' else ''False'')"

subsection \<open>\<open>int(s)\<close> on a string, base 10\<close>

text \<open>
  \<open>int\<close> strips surrounding ASCII whitespace and reads an optional sign; then comes the
  run of digits and underscores, in which single underscores may only separate digits.
  A run of more than \<open>int_max_str_digits\<close> digits is refused (the interpreter's default
  limit), and so is anything left after the run. Every refusal is a \<open>ValueError\<close>.
\<close>

definition is_space :: "char \<Rightarrow> bool" where
  "is_space c = (let n = (of_char c :: nat) in (9 \<le> n \<and> n \<le> 13) \<or> n = 32)"

definition is_digit :: "char \<Rightarrow> bool" where
  "is_digit c = (let n = (of_char c :: nat) in 48 \<le> n \<and> n \<le> 57)"

definition digit_val :: "char \<Rightarrow> int" where
  "digit_val c = int (of_char c) - 48"

definition str_strip :: "string \<Rightarrow> string" where
  "str_strip s = rev (dropWhile is_space (rev (dropWhile is_space s)))"

fun parse_digits :: "bool \<Rightarrow> int \<Rightarrow> string \<Rightarrow> int option" where
  "parse_digits prev_digit acc [] = (if prev_digit then Some acc else None)"
| "parse_digits prev_digit acc (c # cs) =
     (if is_digit c then parse_digits True (acc * 10 + digit_val c) cs
      else if c = CHR ''_'' \<and> prev_digit then parse_digits False acc cs
      else None)"

definition int_max_str_digits :: nat where
  "int_max_str_digits = 4300"

text \<open>\<open>repr(s)\<close>, for a string without quotes or characters to escape.\<close>

definition py_repr :: "string \<Rightarrow> string" where
  "py_repr s = CHR 0x27 # s @ [CHR 0x27]"

definition invalid_literal :: "string \<Rightarrow> py_exception" where
  "invalid_literal s = ValueError (''invalid literal for int() with base 10: '' @ py_repr s)"

definition py_int :: "string \<Rightarrow> py_exception + int" where
  "py_int s =
     (let t = str_strip s;
          neg = (t \<noteq> [] \<and> hd t = CHR ''-'');
          body = (if t \<noteq> [] \<and> (hd t = CHR ''-'' \<or> hd t = CHR ''+'') then tl t else t);
          run = takeWhile (\<lambda>c. is_digit c \<or> c = CHR ''_'') body
      in case parse_digits False 0 run of
           None \<Rightarrow> Inl (invalid_literal s)
         | Some n \<Rightarrow>
             if int_max_str_digits < length (filter is_digit run)
             then Inl (ValueError ''Exceeds the limit (4300 digits) for integer string conversion'')
             else if run = body then Inr (if neg then - n else n)
             else Inl (invalid_literal s))"

section \<open>Configuration: arguments, environment, defaults\<close>

text \<open>
  The keyword arguments of \<open>setup_logging\<close>; \<open>None\<close> is Python's \<open>None\<close>.
\<close>

record args =
  service_name :: string
  level :: "string option"
  log_to_console :: "bool option"
  log_to_file :: "bool option"
  log_dir :: "string option"
  log_filename :: "string option"
  log_format :: "string option"
  max_bytes :: "int option"
  backup_count :: "int option"

text \<open>
  What the module reads from outside itself: the process environment, the three constants
  of \<open>config.constants.params.Params\<close>, the directory two levels above the module file,
  \<open>pathlib\<close>'s join, the outcome of \<open>Path.mkdir\<close> and of opening the log file (\<open>None\<close>:
  success, \<open>Some e\<close>: the exception raised), and whether \<open>logging.Formatter\<close> accepts a
  format string (it validates the string and raises \<open>ValueError\<close> otherwise).
\<close>

record world =
  environ :: "string \<rightharpoonup> string"
  Params_log_level :: string
  Params_log_dir_name :: string
  Params_log_filename :: string
  project_root :: string
  path_join :: "string \<Rightarrow> string \<Rightarrow> string"
  mkdir :: "string \<Rightarrow> py_exception option"
  open_file :: "string \<Rightarrow> py_exception option"
  Formatter_valid :: "string \<Rightarrow> bool"

definition DEFAULT_LOG_FORMAT :: string where
  "DEFAULT_LOG_FORMAT = ''%(asctime)s - %(service)s - %(levelname)s - %(message)s''"

definition DEFAULT_LOG_MAX_BYTES :: int where
  "DEFAULT_LOG_MAX_BYTES = 10 * 1024 * 1024"

definition DEFAULT_LOG_BACKUP_COUNT :: int where
  "DEFAULT_LOG_BACKUP_COUNT = 5"

definition DEFAULT_LOG_TO_CONSOLE :: bool where
  "DEFAULT_LOG_TO_CONSOLE = True"

definition DEFAULT_LOG_TO_FILE :: bool where
  "DEFAULT_LOG_TO_FILE = True"

text \<open>\<open>os.environ.get(key, default)\<close>.\<close>

definition environ_get :: "world \<Rightarrow> string \<Rightarrow> string \<Rightarrow> string" where
  "environ_get w key dflt = (case environ w key of Some v \<Rightarrow> v | None \<Rightarrow> dflt)"

text \<open>
  \<open>x or y\<close> on an optional string: \<open>x\<close> when it is truthy (not \<open>None\<close> and not empty),
  otherwise \<open>y\<close>.
\<close>

definition or_str :: "string option \<Rightarrow> string \<Rightarrow> string" where
  "or_str x y = (case x of Some s \<Rightarrow> (if s \<noteq> [] then s else y) | None \<Rightarrow> y)"

text \<open>
  \<open>int(os.environ.get(key, default))\<close> with an integer default: \<open>int\<close> of the default
  is the default, \<open>int\<close> of the variable's string may raise.
\<close>

definition env_int :: "world \<Rightarrow> string \<Rightarrow> int \<Rightarrow> py_exception + int" where
  "env_int w key dflt = (case environ w key of Some v \<Rightarrow> py_int v | None \<Rightarrow> Inr dflt)"

text \<open>
  \<open>x or int(os.environ.get(key, default))\<close>: the right operand is evaluated, and may
  raise, only when \<open>x\<close> is \<open>None\<close> or \<open>0\<close>.
\<close>

definition or_int_env :: "int option \<Rightarrow> world \<Rightarrow> string \<Rightarrow> int \<Rightarrow> py_exception + int" where
  "or_int_env x w key dflt =
     (case x of
        Some n \<Rightarrow> (if n \<noteq> 0 then Inr n else env_int w key dflt)
      | None \<Rightarrow> env_int w key dflt)"

text \<open>
  \<open>x if x is not None else (os.environ.get(key, str(default)).lower() == 'true')\<close>.
\<close>

definition bool_env :: "bool option \<Rightarrow> world \<Rightarrow> string \<Rightarrow> bool \<Rightarrow> bool" where
  "bool_env x w key dflt =
     (case x of
        Some b \<Rightarrow> b
      | None \<Rightarrow> str_lower (environ_get w key (str_bool dflt)) = ''true'')"

record config =
  log_level_str :: string
  log_format_str :: string
  should_log_to_console :: bool
  should_log_to_file :: bool
  log_directory :: string
  log_file_name :: string
  max_log_bytes :: int
  backup_log_count :: int

text \<open>
  Lines 67 to 74 of \<open>setup_logging\<close>, in their order: the only two that can raise are the
  last two, \<open>max_log_bytes\<close> before \<open>backup_log_count\<close>.
\<close>

definition resolve_config :: "world \<Rightarrow> args \<Rightarrow> py_exception + config" where
  "resolve_config w a =
     (let lvl = or_str (level a) (environ_get w ''LOG_LEVEL'' (Params_log_level w));
          fmt = or_str (log_format a) (environ_get w ''LOG_FORMAT'' DEFAULT_LOG_FORMAT);
          con = bool_env (log_to_console a) w ''LOG_TO_CONSOLE'' DEFAULT_LOG_TO_CONSOLE;
          fil = bool_env (log_to_file a) w ''LOG_TO_FILE'' DEFAULT_LOG_TO_FILE;
          dir = or_str (log_dir a) (environ_get w ''LOG_DIR'' (Params_log_dir_name w));
          fnm = or_str (log_filename a) (environ_get w ''LOG_FILENAME'' (Params_log_filename w))
      in case or_int_env (max_bytes a) w ''LOG_MAX_BYTES'' DEFAULT_LOG_MAX_BYTES of
           Inl e \<Rightarrow> Inl e
         | Inr mb \<Rightarrow>
             (case or_int_env (backup_count a) w ''LOG_BACKUP_COUNT'' DEFAULT_LOG_BACKUP_COUNT of
                Inl e \<Rightarrow> Inl e
              | Inr bc \<Rightarrow>
                  Inr \<lparr>log_level_str = lvl, log_format_str = fmt,
                       should_log_to_console = con, should_log_to_file = fil,
                       log_directory = dir, log_file_name = fnm,
                       max_log_bytes = mb, backup_log_count = bc\<rparr>))"

section \<open>The part of the \<open>logging\<close> library that \<open>setup_logging\<close> drives\<close>

subsection \<open>Level names\<close>

text \<open>
  \<open>getattr(logging, name, default)\<close> reads an attribute of the \<open>logging\<close> module. After
  \<open>.upper()\<close> only the attributes whose names have no lower-case letter can be reached:
  the eight level constants, and two that are not integers, \<open>BASIC_FORMAT\<close> (a string)
  and \<open>_STYLES\<close> (a dict).
\<close>

datatype py_value = IntVal int | StrVal string | DictVal

definition BASIC_FORMAT :: string where
  "BASIC_FORMAT = ''%(levelname)s:%(name)s:%(message)s''"

definition logging_INFO :: int where
  "logging_INFO = 20"

definition logging_ERROR :: int where
  "logging_ERROR = 40"

definition logging_attr :: "string \<rightharpoonup> py_value" where
  "logging_attr name =
     (if name = ''CRITICAL'' then Some (IntVal 50)
      else if name = ''FATAL'' then Some (IntVal 50)
      else if name = ''ERROR'' then Some (IntVal logging_ERROR)
      else if name = ''WARNING'' then Some (IntVal 30)
      else if name = ''WARN'' then Some (IntVal 30)
      else if name = ''INFO'' then Some (IntVal logging_INFO)
      else if name = ''DEBUG'' then Some (IntVal 10)
      else if name = ''NOTSET'' then Some (IntVal 0)
      else if name = ''BASIC_FORMAT'' then Some (StrVal BASIC_FORMAT)
      else if name = ''_STYLES'' then Some DictVal
      else None)"

definition getattr_logging :: "string \<Rightarrow> py_value \<Rightarrow> py_value" where
  "getattr_logging name dflt = (case logging_attr name of Some v \<Rightarrow> v | None \<Rightarrow> dflt)"

text \<open>\<open>logging._nameToLevel\<close>, the names that \<open>setLevel\<close> accepts as strings.\<close>

definition nameToLevel :: "string \<rightharpoonup> int" where
  "nameToLevel name =
     (if name = ''CRITICAL'' then Some 50
      else if name = ''FATAL'' then Some 50
      else if name = ''ERROR'' then Some 40
      else if name = ''WARN'' then Some 30
      else if name = ''WARNING'' then Some 30
      else if name = ''INFO'' then Some 20
      else if name = ''DEBUG'' then Some 10
      else if name = ''NOTSET'' then Some 0
      else None)"

text \<open>
  \<open>logging._checkLevel\<close>, called by every \<open>setLevel\<close>. The message of its
  \<open>TypeError\<close> ends with the value refused, which is left out here.
\<close>

definition checkLevel :: "py_value \<Rightarrow> py_exception + int" where
  "checkLevel v =
     (case v of
        IntVal n \<Rightarrow> Inr n
      | StrVal s \<Rightarrow> (case nameToLevel s of
                       Some n \<Rightarrow> Inr n
                     | None \<Rightarrow> Inl (ValueError (''Unknown level: '' @ py_repr s)))
      | DictVal \<Rightarrow> Inl (TypeError ''Level not an integer or a valid string''))"

text \<open>
  Line 83: \<open>numeric_level = getattr(logging, log_level_str.upper(), logging.INFO)\<close>.
\<close>

definition numeric_level_of :: "string \<Rightarrow> py_value" where
  "numeric_level_of s = getattr_logging (str_upper s) (IntVal logging_INFO)"

subsection \<open>Records, filters, handlers\<close>

text \<open>
  A log record, with the attributes that matter here; \<open>service\<close> is \<open>None\<close> while the
  record has no such attribute.
\<close>

record log_record =
  levelno :: int
  msg :: string
  exc_info :: bool
  service :: "string option"

text \<open>
  An instance of \<open>ServiceNameFilter\<close>: the two attributes that \<open>logging.Filter.__init__\<close>
  sets, and the bound name.
\<close>

record ServiceNameFilter =
  filter_name :: string
  filter_nlen :: nat
  self_service_name :: string

definition ServiceNameFilter_init :: "string \<Rightarrow> ServiceNameFilter" where
  "ServiceNameFilter_init sn = \<lparr>filter_name = [], filter_nlen = 0, self_service_name = sn\<rparr>"

text \<open>
  \<open>ServiceNameFilter.filter\<close>: the record is mutated, so it is returned with the verdict.
\<close>

definition ServiceNameFilter_filter ::
  "ServiceNameFilter \<Rightarrow> 'a log_record_scheme \<Rightarrow> bool \<times> 'a log_record_scheme" where
  "ServiceNameFilter_filter self r = (True, r\<lparr>service := Some (self_service_name self)\<rparr>)"

datatype stream = Stdout | Stderr

text \<open>
  Where a handler writes: a stream, a rotating file (path, \<open>maxBytes\<close>, \<open>backupCount\<close>,
  encoding), or, for a handler that other code attached to the root before, anything
  else.
\<close>

datatype sink = StreamSink stream | RotatingFileSink string int int string | OtherSink nat

record handler =
  h_sink :: sink
  h_formatter :: "string option"
  h_filters :: "ServiceNameFilter list"
  h_level :: int

definition StreamHandler :: "stream \<Rightarrow> handler" where
  "StreamHandler st = \<lparr>h_sink = StreamSink st, h_formatter = None, h_filters = [], h_level = 0\<rparr>"

definition RotatingFileHandler :: "string \<Rightarrow> int \<Rightarrow> int \<Rightarrow> string \<Rightarrow> handler" where
  "RotatingFileHandler filename maxBytes backupCount encoding =
     \<lparr>h_sink = RotatingFileSink filename maxBytes backupCount encoding,
      h_formatter = None, h_filters = [], h_level = 0\<rparr>"

definition setFormatter :: "string \<Rightarrow> handler \<Rightarrow> handler" where
  "setFormatter fmt h = h\<lparr>h_formatter := Some fmt\<rparr>"

definition addFilter :: "ServiceNameFilter \<Rightarrow> handler \<Rightarrow> handler" where
  "addFilter f h = (if f \<in> set (h_filters h) then h else h\<lparr>h_filters := h_filters h @ [f]\<rparr>)"

definition setLevel :: "int \<Rightarrow> handler \<Rightarrow> handler" where
  "setLevel n h = h\<lparr>h_level := n\<rparr>"

text \<open>\<open>Filterer.filter\<close>: the filters in order, stopping at the first that refuses.\<close>

fun Filterer_filter :: "ServiceNameFilter list \<Rightarrow> log_record \<Rightarrow> bool \<times> log_record" where
  "Filterer_filter [] r = (True, r)"
| "Filterer_filter (f # fs) r =
     (case ServiceNameFilter_filter f r of
        (result, r') \<Rightarrow> if result then Filterer_filter fs r' else (False, r'))"

text \<open>
  \<open>Logger.callHandlers\<close> on the root: each handler whose level admits the record
  filters it and, if the filters accept, emits it. The record is one object, so what a
  filter wrote stays on it for the handlers that follow. \<open>out\<close> is the list of
  emissions so far: which handler wrote which record.
\<close>

fun callHandlers ::
  "handler list \<Rightarrow> log_record \<Rightarrow> (handler \<times> log_record) list \<Rightarrow> (handler \<times> log_record) list" where
  "callHandlers [] r out = out"
| "callHandlers (h # hs) r out =
     (if h_level h \<le> levelno r
      then (case Filterer_filter (h_filters h) r of
              (rv, r') \<Rightarrow> callHandlers hs r' (if rv then out @ [(h, r')] else out))
      else callHandlers hs r out)"

subsection \<open>The process state\<close>

text \<open>
  The module's flag \<open>_is_configured\<close>, the root logger (level and handlers), and three
  histories: the handlers closed so far, the calls made to the module-level functions
  \<open>logging.error\<close> and \<open>logging.info\<close> (severity and message), and the emissions of the
  handlers. The root logger is taken as \<open>logging\<close> creates it: enabled, without filters
  of its own, and \<open>logging.disable\<close> not in use.
\<close>

record logging_state =
  is_configured :: bool
  root_level :: int
  root_handlers :: "handler list"
  closed :: "handler list"
  log_calls :: "(int \<times> string) list"
  emitted :: "(handler \<times> log_record) list"

definition Logger_addHandler :: "handler \<Rightarrow> logging_state \<Rightarrow> logging_state" where
  "Logger_addHandler h st =
     (if h \<in> set (root_handlers st) then st
      else st\<lparr>root_handlers := root_handlers st @ [h]\<rparr>)"

definition Logger_removeHandler :: "handler \<Rightarrow> logging_state \<Rightarrow> logging_state" where
  "Logger_removeHandler h st =
     (if h \<in> set (root_handlers st) then st\<lparr>root_handlers := remove1 h (root_handlers st)\<rparr>
      else st)"

definition Handler_close :: "handler \<Rightarrow> logging_state \<Rightarrow> logging_state" where
  "Handler_close h st = st\<lparr>closed := closed st @ [h]\<rparr>"

text \<open>
  \<open>logging.basicConfig()\<close> without arguments: when the root has no handler, it gets a
  handler on standard error with the format \<open>BASIC_FORMAT\<close>; the root's level is left
  as it is.
\<close>

definition basic_handler :: handler where
  "basic_handler = setFormatter BASIC_FORMAT (StreamHandler Stderr)"

definition basicConfig :: "logging_state \<Rightarrow> logging_state" where
  "basicConfig st =
     (if root_handlers st = [] then Logger_addHandler basic_handler st else st)"

text \<open>
  \<open>logging.error(msg, exc_info=...)\<close> and \<open>logging.info(msg)\<close>: \<open>basicConfig\<close> when the
  root has no handler, then the root's own level test, then the handlers. They do not
  raise: a handler catches what its \<open>emit\<close> raises.
\<close>

definition logging_log :: "int \<Rightarrow> string \<Rightarrow> bool \<Rightarrow> logging_state \<Rightarrow> logging_state" where
  "logging_log lvl m exc st =
     (let st1 = (if length (root_handlers st) = 0 then basicConfig st else st);
          st2 = st1\<lparr>log_calls := log_calls st1 @ [(lvl, m)]\<rparr>
      in if root_level st2 \<le> lvl
         then st2\<lparr>emitted :=
                callHandlers (root_handlers st2)
                  \<lparr>levelno = lvl, msg = m, exc_info = exc, service = None\<rparr> (emitted st2)\<rparr>
         else st2)"

definition logging_error :: "string \<Rightarrow> logging_state \<Rightarrow> logging_state" where
  "logging_error m st = logging_log logging_ERROR m True st"

definition logging_info :: "string \<Rightarrow> logging_state \<Rightarrow> logging_state" where
  "logging_info m st = logging_log logging_INFO m False st"

section \<open>\<open>setup_logging\<close>\<close>

datatype outcome = Returns | Raises py_exception

text \<open>
  Lines 89 to 91: the loop over a copy of the root's handler list, removing and closing
  each handler.
\<close>

fun clear_loop :: "handler list \<Rightarrow> logging_state \<Rightarrow> logging_state" where
  "clear_loop [] st = st"
| "clear_loop (h # hs) st = clear_loop hs (Handler_close h (Logger_removeHandler h st))"

text \<open>Lines 101 to 107: the console handler.\<close>

definition console_handler :: "config \<Rightarrow> int \<Rightarrow> ServiceNameFilter \<Rightarrow> handler" where
  "console_handler cfg numeric_level service_filter =
     setLevel numeric_level
       (addFilter service_filter (setFormatter (log_format_str cfg) (StreamHandler Stdout)))"

definition console_step ::
  "config \<Rightarrow> int \<Rightarrow> ServiceNameFilter \<Rightarrow> logging_state \<Rightarrow> logging_state" where
  "console_step cfg numeric_level service_filter st =
     (if should_log_to_console cfg
      then Logger_addHandler (console_handler cfg numeric_level service_filter) st
      else st)"

text \<open>
  Lines 110 to 130: the rotating file handler. \<open>log_path\<close> is computed before the
  \<open>try\<close>; inside it \<open>mkdir\<close> and the handler's constructor (which opens the file) may
  raise, and \<open>except Exception\<close> turns either failure into one call of \<open>logging.error\<close>.
\<close>

definition log_path_of :: "world \<Rightarrow> config \<Rightarrow> string" where
  "log_path_of w cfg = path_join w (project_root w) (log_directory cfg)"

definition log_file_full_path :: "world \<Rightarrow> config \<Rightarrow> string" where
  "log_file_full_path w cfg = path_join w (log_path_of w cfg) (log_file_name cfg)"

definition file_handler :: "world \<Rightarrow> config \<Rightarrow> int \<Rightarrow> ServiceNameFilter \<Rightarrow> handler" where
  "file_handler w cfg numeric_level service_filter =
     addFilter service_filter
       (setLevel numeric_level
          (setFormatter (log_format_str cfg)
             (RotatingFileHandler (log_file_full_path w cfg) (max_log_bytes cfg)
                (backup_log_count cfg) ''utf-8'')))"

definition failure_message :: "world \<Rightarrow> config \<Rightarrow> py_exception \<Rightarrow> string" where
  "failure_message w cfg e =
     ''Failed to configure file logging to '' @ log_file_full_path w cfg @ '': '' @ exc_str e"

text \<open>
  What the \<open>try\<close> block raises, if anything: \<open>mkdir\<close> comes first, then the
  constructor of the handler, which opens the file.
\<close>

definition file_sink_failure :: "world \<Rightarrow> config \<Rightarrow> py_exception option" where
  "file_sink_failure w cfg =
     (case mkdir w (log_path_of w cfg) of
        Some e \<Rightarrow> Some e
      | None \<Rightarrow> open_file w (log_file_full_path w cfg))"

definition file_step ::
  "world \<Rightarrow> config \<Rightarrow> int \<Rightarrow> ServiceNameFilter \<Rightarrow> logging_state \<Rightarrow> logging_state" where
  "file_step w cfg numeric_level service_filter st =
     (if should_log_to_file cfg
      then (case file_sink_failure w cfg of
              Some e \<Rightarrow> logging_error (failure_message w cfg e) st
            | None \<Rightarrow> Logger_addHandler (file_handler w cfg numeric_level service_filter) st)
      else st)"

text \<open>Line 135: the message of the final \<open>logging.info\<close>.\<close>

definition summary_message :: "string \<Rightarrow> config \<Rightarrow> string" where
  "summary_message sn cfg =
     ''Logging configured for service '' @ py_repr sn @ ''. Level: '' @ log_level_str cfg
       @ '', Console: '' @ str_bool (should_log_to_console cfg)
       @ '', File: '' @ str_bool (should_log_to_file cfg)"

text \<open>The error of \<open>logging.Formatter\<close> for a format string it does not accept.\<close>

definition invalid_format :: "string \<Rightarrow> py_exception" where
  "invalid_format fmt =
     ValueError (''Invalid format '' @ py_repr fmt @ '' for '' @ py_repr ''%'' @ '' style'')"

text \<open>
  The whole function. The result is how the call ends and the state it leaves: an
  exception may leave the root logger changed (a refused format string is found after
  the level was set and the old handlers were removed).
\<close>

definition setup_logging :: "world \<Rightarrow> args \<Rightarrow> logging_state \<Rightarrow> outcome \<times> logging_state" where
  "setup_logging w a st =
     (if is_configured st then (Returns, st)
      else case resolve_config w a of
        Inl e \<Rightarrow> (Raises e, st)
      | Inr cfg \<Rightarrow>
          (case checkLevel (numeric_level_of (log_level_str cfg)) of
             Inl e \<Rightarrow> (Raises e, st)
           | Inr numeric_level \<Rightarrow>
               (let st1 = st\<lparr>root_level := numeric_level\<rparr>;
                    st2 = clear_loop (root_handlers st1) st1
                in if \<not> Formatter_valid w (log_format_str cfg)
                   then (Raises (invalid_format (log_format_str cfg)), st2)
                   else
                     (let service_filter = ServiceNameFilter_init (service_name a);
                          st3 = console_step cfg numeric_level service_filter st2;
                          st4 = file_step w cfg numeric_level service_filter st3;
                          st5 = st4\<lparr>is_configured := True\<rparr>
                      in (Returns,
                          logging_info (summary_message (service_name a) cfg) st5)))))"

text \<open>
  Several calls in one process, each with its own arguments and with the environment it
  finds; an exception is caught by the caller, so the next call still runs.
\<close>

fun run_calls :: "(world \<times> args) list \<Rightarrow> logging_state \<Rightarrow> outcome list \<times> logging_state" where
  "run_calls [] st = ([], st)"
| "run_calls ((w, a) # cs) st =
     (case setup_logging w a st of
        (r, st') \<Rightarrow> (case run_calls cs st' of (rs, st'') \<Rightarrow> (r # rs, st'')))"

subsection \<open>Concrete inputs\<close>

text \<open>
  A fresh process: the flag is false, the root logger has the level \<open>WARNING\<close> and no
  handler, and nothing has happened.
\<close>

definition initial_state :: logging_state where
  "initial_state =
     \<lparr>is_configured = False, root_level = 30, root_handlers = [], closed = [],
      log_calls = [], emitted = []\<rparr>"

text \<open>
  A world whose file system accepts everything but the directory \<open>/app/blocked\<close>, with
  a given environment. \<open>pathlib\<close>'s join is taken on relative names only.
\<close>

definition world_of :: "(string \<rightharpoonup> string) \<Rightarrow> world" where
  "world_of env =
     \<lparr>environ = env, Params_log_level = ''INFO'', Params_log_dir_name = ''logs'',
      Params_log_filename = ''app.log'', project_root = ''/app'',
      path_join = (\<lambda>p q. p @ ''/'' @ q),
      mkdir = (\<lambda>p. if p = ''/app/blocked'' then Some (OSError ''File exists'') else None),
      open_file = (\<lambda>p. None),
      Formatter_valid = (\<lambda>f. True)\<rparr>"

definition no_args :: args where
  "no_args =
     \<lparr>service_name = ''svc'', level = None, log_to_console = None, log_to_file = None,
      log_dir = None, log_filename = None, log_format = None, max_bytes = None,
      backup_count = None\<rparr>"

text \<open>A handler that other code attached to the root before \<open>setup_logging\<close> runs.\<close>

definition foreign_handler :: "nat \<Rightarrow> handler" where
  "foreign_handler k = \<lparr>h_sink = OtherSink k, h_formatter = None, h_filters = [], h_level = 0\<rparr>"

subsection \<open>Notions used in the statements\<close>

fun is_stream_sink :: "sink \<Rightarrow> bool" where
  "is_stream_sink (StreamSink _) = True"
| "is_stream_sink _ = False"

fun is_file_sink :: "sink \<Rightarrow> bool" where
  "is_file_sink (RotatingFileSink _ _ _ _) = True"
| "is_file_sink _ = False"

text \<open>
  The record that a handler emits for a call of \<open>logging.error\<close> or \<open>logging.info\<close> made
  by \<open>setup_logging\<close>: it carries the service name when the handler has the filter.
\<close>

definition emitted_record :: "int \<Rightarrow> string \<Rightarrow> bool \<Rightarrow> string \<Rightarrow> handler \<Rightarrow> log_record" where
  "emitted_record lvl m exc sn h =
     \<lparr>levelno = lvl, msg = m, exc_info = exc,
      service = (if h_filters h = [] then None else Some sn)\<rparr>"

text \<open>
  The handlers that a run of \<open>setup_logging\<close> attaches itself, and the handlers on the
  root when the run ends: if the run attached none, the first module-level logging call
  has installed \<open>basic_handler\<close>.
\<close>

definition attached :: "world \<Rightarrow> config \<Rightarrow> int \<Rightarrow> ServiceNameFilter \<Rightarrow> handler list" where
  "attached w cfg n sf =
     (if should_log_to_console cfg then [console_handler cfg n sf] else [])
     @ (if should_log_to_file cfg \<and> file_sink_failure w cfg = None
        then [file_handler w cfg n sf] else [])"

definition handlers_after :: "world \<Rightarrow> config \<Rightarrow> int \<Rightarrow> ServiceNameFilter \<Rightarrow> handler list" where
  "handlers_after w cfg n sf =
     (if attached w cfg n sf = [] then [basic_handler] else attached w cfg n sf)"

section \<open>Auxiliary facts\<close>

lemmas parse_defs =
  py_int_def str_strip_def is_space_def is_digit_def digit_val_def int_max_str_digits_def
  invalid_literal_def py_repr_def

lemmas config_defs =
  resolve_config_def or_str_def or_int_env_def env_int_def bool_env_def environ_get_def str_bool_def
  str_lower_def char_lower_def str_upper_def char_upper_def
  DEFAULT_LOG_FORMAT_def DEFAULT_LOG_MAX_BYTES_def DEFAULT_LOG_BACKUP_COUNT_def
  DEFAULT_LOG_TO_CONSOLE_def DEFAULT_LOG_TO_FILE_def

lemmas level_defs =
  numeric_level_of_def getattr_logging_def logging_attr_def checkLevel_def nameToLevel_def
  logging_INFO_def logging_ERROR_def BASIC_FORMAT_def

lemmas handler_defs =
  console_handler_def file_handler_def basic_handler_def StreamHandler_def
  RotatingFileHandler_def setFormatter_def addFilter_def setLevel_def
  ServiceNameFilter_init_def ServiceNameFilter_filter_def


lemmas example_defs =
  world_of_def no_args_def initial_state_def foreign_handler_def log_path_of_def
  log_file_full_path_def failure_message_def summary_message_def

lemma clear_loop_all:
  "root_handlers st = hs \<Longrightarrow>
   clear_loop hs st = st\<lparr>root_handlers := [], closed := closed st @ hs\<rparr>"
proof (induction hs arbitrary: st)
  case Nil
  then show ?case by simp
next
  case (Cons h hs)
  let ?st' = "Handler_close h (Logger_removeHandler h st)"
  have rh: "root_handlers ?st' = hs"
    using Cons.prems by (simp add: Handler_close_def Logger_removeHandler_def)
  have "clear_loop (h # hs) st = clear_loop hs ?st'" by simp
  also have "\<dots> = ?st'\<lparr>root_handlers := [], closed := closed ?st' @ hs\<rparr>"
    using Cons.IH [OF rh] .
  also have "\<dots> = st\<lparr>root_handlers := [], closed := closed st @ h # hs\<rparr>"
    using Cons.prems by (simp add: Handler_close_def Logger_removeHandler_def)
  finally show ?case .
qed

lemma Filterer_filter_accepts: "fst (Filterer_filter fs r) = True"
  by (induction fs arbitrary: r) (simp_all add: ServiceNameFilter_filter_def)

lemma setup_logging_configured: "is_configured st \<Longrightarrow> setup_logging w a st = (Returns, st)"
  by (simp add: setup_logging_def)

lemma logging_log_is_configured:
  "is_configured (logging_log l m e st) = is_configured st"
  by (simp add: logging_log_def basicConfig_def Logger_addHandler_def Let_def)

lemma setup_logging_returns_configured:
  "setup_logging w a st = (Returns, st') \<Longrightarrow> is_configured st'"
  by (auto simp: setup_logging_def logging_info_def logging_log_is_configured Let_def
      split: if_splits sum.splits)

lemma run_calls_configured:
  "is_configured st \<Longrightarrow> run_calls cs st = (replicate (length cs) Returns, st)"
  by (induction cs) (auto simp: setup_logging_configured)

lemma setup_logging_effective:
  assumes "\<not> is_configured st" and "resolve_config w a = Inr cfg"
    and "checkLevel (numeric_level_of (log_level_str cfg)) = Inr n"
    and "Formatter_valid w (log_format_str cfg)"
  shows "setup_logging w a st =
    (Returns, logging_info (summary_message (service_name a) cfg)
       ((file_step w cfg n (ServiceNameFilter_init (service_name a))
          (console_step cfg n (ServiceNameFilter_init (service_name a))
            (st\<lparr>root_level := n, root_handlers := [],
                closed := closed st @ root_handlers st\<rparr>)))
        \<lparr>is_configured := True\<rparr>))"
  using assms by (simp add: setup_logging_def Let_def clear_loop_all)

lemma setup_logging_returns_cases:
  assumes "setup_logging w a st = (Returns, st')" and "\<not> is_configured st"
  shows "\<exists>cfg n. resolve_config w a = Inr cfg
      \<and> checkLevel (numeric_level_of (log_level_str cfg)) = Inr n
      \<and> Formatter_valid w (log_format_str cfg)"
  using assms by (auto simp: setup_logging_def Let_def split: if_splits sum.splits)

lemma str_lower_True: "str_lower ''True'' = ''true''"
  by (simp add: str_lower_def char_lower_def)

lemma example_default_run_returns:
  "fst (setup_logging (world_of Map.empty) no_args initial_state) = Returns"
  by (simp add: setup_logging_def config_defs level_defs example_defs Let_def)

text \<open>
  What does hold of the precedence: an argument that is truthy (a non-empty string, a
  non-zero integer) or a boolean that is not \<open>None\<close> decides its field, whatever the
  environment holds.
\<close>

lemma truthy_arguments_win:
  assumes "resolve_config w a = Inr cfg"
  shows "(level a = Some l \<and> l \<noteq> [] \<longrightarrow> log_level_str cfg = l)
    \<and> (log_format a = Some f \<and> f \<noteq> [] \<longrightarrow> log_format_str cfg = f)
    \<and> (log_to_console a = Some c \<longrightarrow> should_log_to_console cfg = c)
    \<and> (log_to_file a = Some c' \<longrightarrow> should_log_to_file cfg = c')
    \<and> (log_dir a = Some d \<and> d \<noteq> [] \<longrightarrow> log_directory cfg = d)
    \<and> (log_filename a = Some fn \<and> fn \<noteq> [] \<longrightarrow> log_file_name cfg = fn)
    \<and> (max_bytes a = Some mb \<and> mb \<noteq> 0 \<longrightarrow> max_log_bytes cfg = mb)
    \<and> (backup_count a = Some bc \<and> bc \<noteq> 0 \<longrightarrow> backup_log_count cfg = bc)"
  using assms
  by (auto simp: resolve_config_def or_str_def or_int_env_def bool_env_def Let_def
      split: sum.splits)

text \<open>
  A level string whose upper-case form is no attribute of the \<open>logging\<close> module gets the
  rank of \<open>INFO\<close>, and \<open>setLevel\<close> accepts it.
\<close>

lemma unknown_level_defaults_to_INFO:
  "logging_attr (str_upper s) = None \<Longrightarrow> checkLevel (numeric_level_of s) = Inr logging_INFO"
  by (simp add: numeric_level_of_def getattr_logging_def checkLevel_def)

lemma bogus_level_is_INFO: "checkLevel (numeric_level_of ''bogus'') = Inr 20"
  by (simp add: level_defs str_upper_def char_upper_def)

lemma console_neq_file:
  "console_handler cfg n sf \<noteq> file_handler w cfg n sf"
  "file_handler w cfg n sf \<noteq> console_handler cfg n sf"
  by (simp_all add: handler_defs)

lemma steps_root_handlers:
  assumes "root_handlers s = []"
  shows "root_handlers (logging_info m
           ((file_step w cfg n sf (console_step cfg n sf s))\<lparr>is_configured := True\<rparr>))
         = handlers_after w cfg n sf"
  using assms
  by (auto simp: handlers_after_def attached_def console_step_def file_step_def
      Logger_addHandler_def logging_info_def logging_error_def logging_log_def basicConfig_def
      Let_def console_neq_file split: option.splits)

lemma steps_closed:
  "closed (logging_info m
           ((file_step w cfg n sf (console_step cfg n sf s))\<lparr>is_configured := True\<rparr>))
         = closed s"
  by (auto simp: console_step_def file_step_def Logger_addHandler_def
      logging_info_def logging_error_def logging_log_def basicConfig_def Let_def
      split: option.splits)

lemma steps_root_level:
  "root_level (logging_info m
           ((file_step w cfg n sf (console_step cfg n sf s))\<lparr>is_configured := True\<rparr>))
         = root_level s"
  by (auto simp: console_step_def file_step_def Logger_addHandler_def
      logging_info_def logging_error_def logging_log_def basicConfig_def Let_def
      split: option.splits)

lemma steps_log_calls:
  "log_calls (logging_info m
           ((file_step w cfg n sf (console_step cfg n sf s))\<lparr>is_configured := True\<rparr>))
         = log_calls s
           @ (if should_log_to_file cfg
              then (case file_sink_failure w cfg of
                      Some e \<Rightarrow> [(logging_ERROR, failure_message w cfg e)] | None \<Rightarrow> [])
              else [])
           @ [(logging_INFO, m)]"
  by (auto simp: console_step_def file_step_def Logger_addHandler_def
      logging_info_def logging_error_def logging_log_def basicConfig_def Let_def
      split: option.splits)

lemma steps_emitted:
  assumes "root_handlers s = []" and "root_level s = n"
  shows "emitted (logging_info m
           ((file_step w cfg n (ServiceNameFilter_init sn)
              (console_step cfg n (ServiceNameFilter_init sn) s))\<lparr>is_configured := True\<rparr>))
         = emitted s
           @ (if should_log_to_file cfg \<and> n \<le> logging_ERROR
              then (case file_sink_failure w cfg of
                      Some e \<Rightarrow>
                        map (\<lambda>h. (h, emitted_record logging_ERROR (failure_message w cfg e) True sn h))
                          (handlers_after w cfg n (ServiceNameFilter_init sn))
                    | None \<Rightarrow> [])
              else [])
           @ (if n \<le> logging_INFO
              then map (\<lambda>h. (h, emitted_record logging_INFO m False sn h))
                     (handlers_after w cfg n (ServiceNameFilter_init sn))
              else [])"
  using assms
  by (auto simp: handlers_after_def attached_def console_step_def file_step_def
      Logger_addHandler_def logging_info_def logging_error_def logging_log_def basicConfig_def
      Let_def console_neq_file emitted_record_def handler_defs logging_INFO_def
      logging_ERROR_def split: option.splits)

lemma handlers_after_counts:
  "length (filter (\<lambda>h. is_stream_sink (h_sink h)) (handlers_after w cfg n sf)) \<le> 1
   \<and> length (filter (\<lambda>h. is_file_sink (h_sink h)) (handlers_after w cfg n sf)) \<le> 1
   \<and> filter (\<lambda>h. \<not> is_stream_sink (h_sink h) \<and> \<not> is_file_sink (h_sink h))
        (handlers_after w cfg n sf) = []"
  by (simp add: handlers_after_def attached_def handler_defs)

text \<open>The state that an effective run leaves, field by field.\<close>

lemma effective_run:
  assumes "\<not> is_configured st" and "setup_logging w a st = (Returns, st')"
    and "resolve_config w a = Inr cfg"
  shows "\<exists>n. checkLevel (numeric_level_of (log_level_str cfg)) = Inr n
      \<and> Formatter_valid w (log_format_str cfg)
      \<and> is_configured st'
      \<and> root_level st' = n
      \<and> closed st' = closed st @ root_handlers st
      \<and> root_handlers st' = handlers_after w cfg n (ServiceNameFilter_init (service_name a))
      \<and> log_calls st' = log_calls st
           @ (if should_log_to_file cfg
              then (case file_sink_failure w cfg of
                      Some e \<Rightarrow> [(logging_ERROR, failure_message w cfg e)] | None \<Rightarrow> [])
              else [])
           @ [(logging_INFO, summary_message (service_name a) cfg)]
      \<and> emitted st' = emitted st
           @ (if should_log_to_file cfg \<and> n \<le> logging_ERROR
              then (case file_sink_failure w cfg of
                      Some e \<Rightarrow>
                        map (\<lambda>h. (h, emitted_record logging_ERROR (failure_message w cfg e) True
                                      (service_name a) h))
                          (handlers_after w cfg n (ServiceNameFilter_init (service_name a)))
                    | None \<Rightarrow> [])
              else [])
           @ (if n \<le> logging_INFO
              then map (\<lambda>h. (h, emitted_record logging_INFO (summary_message (service_name a) cfg)
                                False (service_name a) h))
                     (handlers_after w cfg n (ServiceNameFilter_init (service_name a)))
              else [])"
proof -
  obtain cfg' n where c: "resolve_config w a = Inr cfg'"
      and n': "checkLevel (numeric_level_of (log_level_str cfg')) = Inr n"
      and f': "Formatter_valid w (log_format_str cfg')"
    using setup_logging_returns_cases [OF assms(2) assms(1)] by blast
  have "cfg' = cfg" using c assms(3) by simp
  with n' f' have n: "checkLevel (numeric_level_of (log_level_str cfg)) = Inr n"
    and f: "Formatter_valid w (log_format_str cfg)" by simp_all
  let ?s = "st\<lparr>root_level := n, root_handlers := [], closed := closed st @ root_handlers st\<rparr>"
  have st': "st' = logging_info (summary_message (service_name a) cfg)
       ((file_step w cfg n (ServiceNameFilter_init (service_name a))
          (console_step cfg n (ServiceNameFilter_init (service_name a)) ?s))
        \<lparr>is_configured := True\<rparr>)"
    using setup_logging_effective [OF assms(1) assms(3) n f] assms(2) by simp
  have rh: "root_handlers ?s = []" and rl: "root_level ?s = n" by simp_all
  show ?thesis
    using n f setup_logging_returns_configured [OF assms(2)]
    unfolding st'
    by (simp only: steps_root_level steps_closed steps_root_handlers [OF rh] steps_log_calls
        steps_emitted [OF rh rl]) simp
qed

lemma example_foreign_run_returns:
  "fst (setup_logging (world_of Map.empty) no_args
          (initial_state\<lparr>root_handlers := [foreign_handler 1, foreign_handler 2]\<rparr>)) = Returns"
  by (simp add: setup_logging_def config_defs level_defs example_defs Let_def)



lemma env_reads_ignore_file_system:
  "env_int (w\<lparr>mkdir := mk, open_file := opn\<rparr>) k i = env_int w k i"
  "environ_get (w\<lparr>mkdir := mk, open_file := opn\<rparr>) k d = environ_get w k d"
  by (simp_all add: env_int_def environ_get_def)

lemma resolve_config_ignores_file_system:
  "resolve_config (w\<lparr>mkdir := mk, open_file := opn\<rparr>) a = resolve_config w a"
  unfolding resolve_config_def or_int_env_def bool_env_def env_reads_ignore_file_system
  by simp

lemma example_blocked_run_returns:
  "fst (setup_logging (world_of Map.empty) (no_args\<lparr>log_dir := Some ''blocked''\<rparr>) initial_state)
     = Returns"
  by (simp add: setup_logging_def config_defs level_defs example_defs Let_def)

lemma example_silent_run_returns:
  "fst (setup_logging (world_of Map.empty)
          (no_args\<lparr>log_to_console := Some False, log_to_file := Some False\<rparr>) initial_state)
     = Returns"
  by (simp add: setup_logging_def config_defs level_defs example_defs Let_def)

section \<open>The claims\<close>

text \<open>
  C1. The claim: an explicit argument that is not null decides its field whatever the
  environment variable holds. The code writes \<open>max_bytes or int(os.environ.get(...))\<close>,
  so the explicit argument \<open>max_bytes = 0\<close> is passed over: with \<open>LOG_MAX_BYTES=2048\<close> in
  the environment the resolved value is 2048, not 0.
\<close>

theorem explicit_zero_max_bytes_yields_to_environment:
  "resolve_config (world_of [''LOG_MAX_BYTES'' \<mapsto> ''2048'']) (no_args\<lparr>max_bytes := Some 0\<rparr>)
     = Inr \<lparr>log_level_str = ''INFO'', log_format_str = DEFAULT_LOG_FORMAT,
            should_log_to_console = True, should_log_to_file = True,
            log_directory = ''logs'', log_file_name = ''app.log'',
            max_log_bytes = 2048, backup_log_count = 5\<rparr>"
  by (simp add: config_defs parse_defs example_defs)

text \<open>
  C2, as stated, fails: with \<open>LOG_MAX_BYTES=abc\<close> and no \<open>max_bytes\<close> argument the call
  raises the \<open>ValueError\<close> of \<open>int\<close>, and leaves the process state as it was.
\<close>

theorem malformed_max_bytes_raises:
  "setup_logging (world_of [''LOG_MAX_BYTES'' \<mapsto> ''abc'']) no_args initial_state
     = (Raises (invalid_literal ''abc''), initial_state)"
  by (simp add: setup_logging_def config_defs parse_defs example_defs)

text \<open>
  C2, amended. With the arguments \<open>max_bytes\<close> and \<open>backup_count\<close> null, in a process not
  yet configured: a variable that is absent gives the built-in default (10485760 bytes,
  5 backups); a variable that is set is read by \<open>int\<close>, and its integer is the resolved
  value; when \<open>int\<close> refuses the string of \<open>LOG_MAX_BYTES\<close>, or accepts it and refuses
  that of \<open>LOG_BACKUP_COUNT\<close>, \<open>setup_logging\<close> raises that error and changes nothing.
\<close>

theorem numeric_environment_parsed_or_raised:
  assumes "max_bytes a = None" and "backup_count a = None" and "\<not> is_configured st"
  shows "(env_int w ''LOG_MAX_BYTES'' DEFAULT_LOG_MAX_BYTES = Inl e \<longrightarrow>
            setup_logging w a st = (Raises e, st))
    \<and> (env_int w ''LOG_MAX_BYTES'' DEFAULT_LOG_MAX_BYTES = Inr mb
         \<and> env_int w ''LOG_BACKUP_COUNT'' DEFAULT_LOG_BACKUP_COUNT = Inl e \<longrightarrow>
            setup_logging w a st = (Raises e, st))
    \<and> (resolve_config w a = Inr cfg \<longrightarrow>
          env_int w ''LOG_MAX_BYTES'' DEFAULT_LOG_MAX_BYTES = Inr (max_log_bytes cfg)
          \<and> env_int w ''LOG_BACKUP_COUNT'' DEFAULT_LOG_BACKUP_COUNT = Inr (backup_log_count cfg))
    \<and> (environ w ''LOG_MAX_BYTES'' = None \<longrightarrow>
          env_int w ''LOG_MAX_BYTES'' DEFAULT_LOG_MAX_BYTES = Inr 10485760)
    \<and> (environ w ''LOG_BACKUP_COUNT'' = None \<longrightarrow>
          env_int w ''LOG_BACKUP_COUNT'' DEFAULT_LOG_BACKUP_COUNT = Inr 5)
    \<and> (environ w ''LOG_MAX_BYTES'' = Some v \<longrightarrow>
          env_int w ''LOG_MAX_BYTES'' DEFAULT_LOG_MAX_BYTES = py_int v)
    \<and> (environ w ''LOG_BACKUP_COUNT'' = Some v \<longrightarrow>
          env_int w ''LOG_BACKUP_COUNT'' DEFAULT_LOG_BACKUP_COUNT = py_int v)"
  using assms
  by (auto simp: setup_logging_def resolve_config_def or_int_env_def env_int_def Let_def
      DEFAULT_LOG_MAX_BYTES_def DEFAULT_LOG_BACKUP_COUNT_def split: sum.splits option.splits)

theorem numeric_environment_parsed_or_raised_witness:
  "max_bytes no_args = None \<and> backup_count no_args = None \<and> \<not> is_configured initial_state
   \<and> env_int (world_of [''LOG_MAX_BYTES'' \<mapsto> ''1_000'', ''LOG_BACKUP_COUNT'' \<mapsto> ''x7''])
        ''LOG_MAX_BYTES'' DEFAULT_LOG_MAX_BYTES = Inr 1000
   \<and> env_int (world_of [''LOG_MAX_BYTES'' \<mapsto> ''1_000'', ''LOG_BACKUP_COUNT'' \<mapsto> ''x7''])
        ''LOG_BACKUP_COUNT'' DEFAULT_LOG_BACKUP_COUNT = Inl (invalid_literal ''x7'')
   \<and> setup_logging (world_of [''LOG_MAX_BYTES'' \<mapsto> ''1_000'', ''LOG_BACKUP_COUNT'' \<mapsto> ''x7''])
        no_args initial_state
      = (Raises (invalid_literal ''x7''), initial_state)"
proof -
  let ?w = "world_of [''LOG_MAX_BYTES'' \<mapsto> ''1_000'', ''LOG_BACKUP_COUNT'' \<mapsto> ''x7'']"
  have args: "max_bytes no_args = None" "backup_count no_args = None"
    by (simp_all add: no_args_def)
  have st: "\<not> is_configured initial_state"
    by (simp add: initial_state_def)
  have mb: "env_int ?w ''LOG_MAX_BYTES'' DEFAULT_LOG_MAX_BYTES = Inr 1000"
    by (simp add: env_int_def world_of_def parse_defs)
  have bc: "env_int ?w ''LOG_BACKUP_COUNT'' DEFAULT_LOG_BACKUP_COUNT = Inl (invalid_literal ''x7'')"
    by (simp add: env_int_def world_of_def parse_defs)
  have "setup_logging ?w no_args initial_state = (Raises (invalid_literal ''x7''), initial_state)"
    using numeric_environment_parsed_or_raised [OF args st, where w = ?w and mb = 1000
        and e = "invalid_literal ''x7''"] mb bc
    by blast
  with args st mb bc show ?thesis by blast
qed

text \<open>
  C3. Once a call of \<open>setup_logging\<close> has returned normally, the flag is set, and every
  later call, whatever its arguments and environment, returns at once and leaves the
  whole process state as it is: the root's level and handlers, the handlers closed, the
  logging calls made and the records emitted.
\<close>

theorem later_calls_are_noops:
  assumes "setup_logging w a st = (Returns, st')"
  shows "is_configured st'
    \<and> setup_logging w2 a2 st' = (Returns, st')
    \<and> run_calls cs st' = (replicate (length cs) Returns, st')"
  using assms
  by (simp add: setup_logging_returns_configured setup_logging_configured run_calls_configured)

theorem later_calls_are_noops_witness:
  "fst (setup_logging (world_of Map.empty) no_args initial_state) = Returns
   \<and> setup_logging (world_of [''LOG_LEVEL'' \<mapsto> ''DEBUG'']) (no_args\<lparr>log_to_file := Some False\<rparr>)
        (snd (setup_logging (world_of Map.empty) no_args initial_state))
      = (Returns, snd (setup_logging (world_of Map.empty) no_args initial_state))
   \<and> run_calls [(world_of [''LOG_LEVEL'' \<mapsto> ''DEBUG''], no_args\<lparr>log_to_file := Some False\<rparr>),
                 (world_of Map.empty, no_args)]
        (snd (setup_logging (world_of Map.empty) no_args initial_state))
      = ([Returns, Returns], snd (setup_logging (world_of Map.empty) no_args initial_state))"
proof -
  have h: "setup_logging (world_of Map.empty) no_args initial_state
      = (Returns, snd (setup_logging (world_of Map.empty) no_args initial_state))"
    using example_default_run_returns by (simp add: prod_eq_iff)
  show ?thesis
    using later_calls_are_noops [OF h, where ?w2.0 = "world_of [''LOG_LEVEL'' \<mapsto> ''DEBUG'']"
        and ?a2.0 = "no_args\<lparr>log_to_file := Some False\<rparr>"
        and cs = "[(world_of [''LOG_LEVEL'' \<mapsto> ''DEBUG''], no_args\<lparr>log_to_file := Some False\<rparr>),
                 (world_of Map.empty, no_args)]"]
      example_default_run_returns
    by (simp del: run_calls.simps)
qed

text \<open>
  C4, as stated, fails: with \<open>LOG_TO_CONSOLE\<close> and \<open>LOG_TO_FILE\<close> absent and both
  arguments null, console and file output resolve to enabled, not disabled.
\<close>

theorem absent_boolean_variable_enables:
  "environ (world_of Map.empty) ''LOG_TO_CONSOLE'' = None
   \<and> environ (world_of Map.empty) ''LOG_TO_FILE'' = None
   \<and> log_to_console no_args = None \<and> log_to_file no_args = None
   \<and> resolve_config (world_of Map.empty) no_args
     = Inr \<lparr>log_level_str = ''INFO'', log_format_str = DEFAULT_LOG_FORMAT,
            should_log_to_console = True, should_log_to_file = True,
            log_directory = ''logs'', log_file_name = ''app.log'',
            max_log_bytes = 10485760, backup_log_count = 5\<rparr>"
  by (simp add: config_defs example_defs)

text \<open>
  C4, amended. For \<open>log_to_console\<close> and \<open>log_to_file\<close>: an argument that is not null is
  the resolved value, and the environment is not consulted; with a null argument, a
  variable that is set enables the output exactly when its value is \<open>true\<close> under
  case-insensitive comparison, and an absent variable leaves the built-in default,
  enabled.
\<close>

theorem boolean_fields_resolution:
  assumes "resolve_config w a = Inr cfg"
  shows "should_log_to_console cfg =
           (case log_to_console a of
              Some b \<Rightarrow> b
            | None \<Rightarrow> (case environ w ''LOG_TO_CONSOLE'' of
                         Some v \<Rightarrow> str_lower v = ''true''
                       | None \<Rightarrow> True))
    \<and> should_log_to_file cfg =
           (case log_to_file a of
              Some b \<Rightarrow> b
            | None \<Rightarrow> (case environ w ''LOG_TO_FILE'' of
                         Some v \<Rightarrow> str_lower v = ''true''
                       | None \<Rightarrow> True))"
proof -
  have con: "should_log_to_console cfg =
      bool_env (log_to_console a) w ''LOG_TO_CONSOLE'' DEFAULT_LOG_TO_CONSOLE"
    and fil: "should_log_to_file cfg =
      bool_env (log_to_file a) w ''LOG_TO_FILE'' DEFAULT_LOG_TO_FILE"
    using assms by (auto simp: resolve_config_def Let_def split: sum.splits)
  show ?thesis
    unfolding con fil
    by (simp add: bool_env_def environ_get_def str_bool_def DEFAULT_LOG_TO_CONSOLE_def
        DEFAULT_LOG_TO_FILE_def str_lower_True split: option.splits)
qed

theorem boolean_fields_resolution_witness:
  "resolve_config (world_of [''LOG_TO_CONSOLE'' \<mapsto> ''TRUE'', ''LOG_TO_FILE'' \<mapsto> ''true''])
      (no_args\<lparr>log_to_file := Some False\<rparr>)
     = Inr \<lparr>log_level_str = ''INFO'', log_format_str = DEFAULT_LOG_FORMAT,
            should_log_to_console = True, should_log_to_file = False,
            log_directory = ''logs'', log_file_name = ''app.log'',
            max_log_bytes = 10485760, backup_log_count = 5\<rparr>
   \<and> str_lower ''TRUE'' = ''true''
   \<and> str_lower ''True'' = ''true'' \<and> str_lower ''yes'' \<noteq> ''true'' \<and> str_lower ''1'' \<noteq> ''true''
   \<and> str_lower [] \<noteq> ''true''"
proof -
  let ?w = "world_of [''LOG_TO_CONSOLE'' \<mapsto> ''TRUE'', ''LOG_TO_FILE'' \<mapsto> ''true'']"
  let ?a = "no_args\<lparr>log_to_file := Some False\<rparr>"
  let ?cfg = "\<lparr>log_level_str = ''INFO'', log_format_str = DEFAULT_LOG_FORMAT,
            should_log_to_console = True, should_log_to_file = False,
            log_directory = ''logs'', log_file_name = ''app.log'',
            max_log_bytes = 10485760, backup_log_count = 5\<rparr>"
  have r: "resolve_config ?w ?a = Inr ?cfg"
    by (simp add: config_defs example_defs)
  have "str_lower ''TRUE'' = ''true''"
    using boolean_fields_resolution [OF r] by (simp add: world_of_def no_args_def)
  moreover have "str_lower ''True'' = ''true'' \<and> str_lower ''yes'' \<noteq> ''true''
      \<and> str_lower ''1'' \<noteq> ''true'' \<and> str_lower [] \<noteq> ''true''"
    by (simp add: str_lower_def char_lower_def)
  ultimately show ?thesis using r by blast
qed

text \<open>
  C5. The claim: a level string that is no severity name gives the root logger the rank
  of \<open>INFO\<close>, and nothing raises. The code looks the upper-cased string up among the
  attributes of the \<open>logging\<close> module: \<open>basic_format\<close> finds \<open>logging.BASIC_FORMAT\<close>, a
  format string, and \<open>root_logger.setLevel\<close> refuses it with \<open>ValueError\<close>.
\<close>

theorem level_naming_module_attribute_raises:
  "setup_logging (world_of Map.empty) (no_args\<lparr>level := Some ''basic_format''\<rparr>) initial_state
     = (Raises (ValueError (''Unknown level: '' @ py_repr BASIC_FORMAT)), initial_state)"
  by (simp add: setup_logging_def config_defs level_defs example_defs py_repr_def)




text \<open>
  C7. A run from a process not yet configured that returns normally has removed every
  handler that was on the root logger (the loop leaves the list empty) and closed each,
  in order, and nothing else; the handlers on the root afterwards are those of
  \<open>handlers_after\<close>, made in this run: at most one stream handler, at most one rotating
  file handler, and none of another kind. Later calls leave them as they are.
\<close>

theorem handlers_reset_then_one_set:
  assumes "\<not> is_configured st" and "setup_logging w a st = (Returns, st')"
  shows "root_handlers (clear_loop (root_handlers st) st) = []
    \<and> closed st' = closed st @ root_handlers st
    \<and> (\<exists>cfg. resolve_config w a = Inr cfg
          \<and> root_handlers st'
              = handlers_after w cfg (root_level st') (ServiceNameFilter_init (service_name a)))
    \<and> length (filter (\<lambda>h. is_stream_sink (h_sink h)) (root_handlers st')) \<le> 1
    \<and> length (filter (\<lambda>h. is_file_sink (h_sink h)) (root_handlers st')) \<le> 1
    \<and> filter (\<lambda>h. \<not> is_stream_sink (h_sink h) \<and> \<not> is_file_sink (h_sink h))
         (root_handlers st') = []
    \<and> root_handlers (snd (run_calls cs st')) = root_handlers st'"
proof -
  obtain cfg where c: "resolve_config w a = Inr cfg"
    using setup_logging_returns_cases [OF assms(2) assms(1)] by blast
  obtain n where l: "root_level st' = n"
      and cl: "closed st' = closed st @ root_handlers st"
      and rh: "root_handlers st' = handlers_after w cfg n (ServiceNameFilter_init (service_name a))"
      and fl: "is_configured st'"
    using effective_run [OF assms c] by blast
  have "root_handlers (clear_loop (root_handlers st) st) = []"
    by (simp add: clear_loop_all)
  moreover have "root_handlers (snd (run_calls cs st')) = root_handlers st'"
    by (simp add: run_calls_configured [OF fl])
  moreover have "\<exists>cfg. resolve_config w a = Inr cfg
          \<and> root_handlers st'
              = handlers_after w cfg (root_level st') (ServiceNameFilter_init (service_name a))"
    using c l rh by blast
  ultimately show ?thesis
    using cl handlers_after_counts [of w cfg n "ServiceNameFilter_init (service_name a)"]
    unfolding rh by blast
qed

theorem handlers_reset_then_one_set_witness:
  "\<not> is_configured (initial_state\<lparr>root_handlers := [foreign_handler 1, foreign_handler 2]\<rparr>)
   \<and> fst (setup_logging (world_of Map.empty) no_args
          (initial_state\<lparr>root_handlers := [foreign_handler 1, foreign_handler 2]\<rparr>)) = Returns
   \<and> closed (snd (setup_logging (world_of Map.empty) no_args
          (initial_state\<lparr>root_handlers := [foreign_handler 1, foreign_handler 2]\<rparr>)))
      = [foreign_handler 1, foreign_handler 2]
   \<and> filter (\<lambda>h. \<not> is_stream_sink (h_sink h) \<and> \<not> is_file_sink (h_sink h))
        (root_handlers (snd (setup_logging (world_of Map.empty) no_args
          (initial_state\<lparr>root_handlers := [foreign_handler 1, foreign_handler 2]\<rparr>)))) = []"
proof -
  let ?st = "initial_state\<lparr>root_handlers := [foreign_handler 1, foreign_handler 2]\<rparr>"
  let ?r = "setup_logging (world_of Map.empty) no_args ?st"
  have nc: "\<not> is_configured ?st" by (simp add: initial_state_def)
  have h: "?r = (Returns, snd ?r)"
    using example_foreign_run_returns by (simp add: prod_eq_iff)
  have "closed (snd ?r) = closed ?st @ root_handlers ?st"
    and "filter (\<lambda>h. \<not> is_stream_sink (h_sink h) \<and> \<not> is_file_sink (h_sink h))
        (root_handlers (snd ?r)) = []"
    using handlers_reset_then_one_set [OF nc h] by blast+
  then show ?thesis
    using nc example_foreign_run_returns by (simp add: initial_state_def)
qed




text \<open>
  C9. \<open>ServiceNameFilter.filter\<close> sets the record's \<open>service\<close> attribute to the bound
  name, whether or not the record had one, and returns true; so does every chain of
  such filters on a handler. The verdict and the record depend on the bound name alone:
  two instances with the same name do the same to every record.
\<close>

theorem ServiceNameFilter_tags_and_accepts:
  "ServiceNameFilter_filter (ServiceNameFilter_init sn) r = (True, r\<lparr>service := Some sn\<rparr>)
   \<and> ServiceNameFilter_filter f r = (True, r\<lparr>service := Some (self_service_name f)\<rparr>)
   \<and> service (snd (ServiceNameFilter_filter f r)) = Some (self_service_name f)
   \<and> fst (Filterer_filter fs r') = True
   \<and> (self_service_name f = self_service_name g \<longrightarrow>
        ServiceNameFilter_filter f r = ServiceNameFilter_filter g r)"
  by (simp add: ServiceNameFilter_filter_def ServiceNameFilter_init_def Filterer_filter_accepts)

theorem ServiceNameFilter_tags_and_accepts_witness:
  "self_service_name \<lparr>filter_name = ''x'', filter_nlen = 1, self_service_name = ''svc''\<rparr>
     = self_service_name (ServiceNameFilter_init ''svc'')
   \<and> ServiceNameFilter_filter \<lparr>filter_name = ''x'', filter_nlen = 1, self_service_name = ''svc''\<rparr>
        \<lparr>levelno = 20, msg = ''m'', exc_info = False, service = Some ''old''\<rparr>
      = ServiceNameFilter_filter (ServiceNameFilter_init ''svc'')
        \<lparr>levelno = 20, msg = ''m'', exc_info = False, service = Some ''old''\<rparr>
   \<and> ServiceNameFilter_filter (ServiceNameFilter_init ''svc'')
        \<lparr>levelno = 20, msg = ''m'', exc_info = False, service = Some ''old''\<rparr>
      = (True, \<lparr>levelno = 20, msg = ''m'', exc_info = False, service = Some ''svc''\<rparr>)"
  using ServiceNameFilter_tags_and_accepts
    [where sn = "''svc''"
       and r = "\<lparr>levelno = 20, msg = ''m'', exc_info = False, service = Some ''old''\<rparr>"
       and f = "\<lparr>filter_name = ''x'', filter_nlen = 1, self_service_name = ''svc''\<rparr>"
       and fs = "[]"
       and r' = "\<lparr>levelno = 20, msg = ''m'', exc_info = False, service = Some ''old''\<rparr>"
       and g = "ServiceNameFilter_init ''svc''"]
  by (simp add: ServiceNameFilter_init_def)

text \<open>
  C10. A call in a process not yet configured that returns normally leaves the flag set,
  and every later call, with any arguments and any environment, returns at once with the
  state unchanged. The normal return and the flag do not depend on what \<open>mkdir\<close> and the
  opening of the file do, nor on which outputs are enabled: the file sink may have
  failed, and both outputs may be disabled.
\<close>

theorem normal_return_sets_flag_for_good:
  assumes "\<not> is_configured st" and "setup_logging w a st = (Returns, st')"
  shows "is_configured st'
    \<and> (\<forall>w2 a2. setup_logging w2 a2 st' = (Returns, st'))
    \<and> (\<forall>mk opn. fst (setup_logging (w\<lparr>mkdir := mk, open_file := opn\<rparr>) a st) = Returns
          \<and> is_configured (snd (setup_logging (w\<lparr>mkdir := mk, open_file := opn\<rparr>) a st)))"
proof -
  have fl: "is_configured st'"
    using setup_logging_returns_configured [OF assms(2)] .
  obtain cfg n where c: "resolve_config w a = Inr cfg"
      and n: "checkLevel (numeric_level_of (log_level_str cfg)) = Inr n"
      and f: "Formatter_valid w (log_format_str cfg)"
    using setup_logging_returns_cases [OF assms(2) assms(1)] by blast
  have "fst (setup_logging (w\<lparr>mkdir := mk, open_file := opn\<rparr>) a st) = Returns
      \<and> is_configured (snd (setup_logging (w\<lparr>mkdir := mk, open_file := opn\<rparr>) a st))" for mk opn
  proof -
    let ?w = "w\<lparr>mkdir := mk, open_file := opn\<rparr>"
    have c': "resolve_config ?w a = Inr cfg"
      using c by (simp add: resolve_config_ignores_file_system)
    have f': "Formatter_valid ?w (log_format_str cfg)" using f by simp
    obtain s where r: "setup_logging ?w a st = (Returns, s)"
      using setup_logging_effective [OF assms(1) c' n f'] by blast
    then show ?thesis using setup_logging_returns_configured [OF r] by simp
  qed
  then show ?thesis
    using fl by (simp add: setup_logging_configured)
qed

theorem normal_return_sets_flag_for_good_witness:
  "\<not> is_configured initial_state
   \<and> fst (setup_logging (world_of Map.empty) (no_args\<lparr>log_dir := Some ''blocked''\<rparr>)
          initial_state) = Returns
   \<and> is_configured (snd (setup_logging (world_of Map.empty)
          (no_args\<lparr>log_dir := Some ''blocked''\<rparr>) initial_state))
   \<and> setup_logging (world_of Map.empty) no_args
        (snd (setup_logging (world_of Map.empty) (no_args\<lparr>log_dir := Some ''blocked''\<rparr>)
           initial_state))
      = (Returns, snd (setup_logging (world_of Map.empty) (no_args\<lparr>log_dir := Some ''blocked''\<rparr>)
           initial_state))
   \<and> fst (setup_logging (world_of Map.empty)
          (no_args\<lparr>log_to_console := Some False, log_to_file := Some False\<rparr>) initial_state)
      = Returns
   \<and> is_configured (snd (setup_logging (world_of Map.empty)
          (no_args\<lparr>log_to_console := Some False, log_to_file := Some False\<rparr>) initial_state))
   \<and> setup_logging (world_of Map.empty) no_args
        (snd (setup_logging (world_of Map.empty)
          (no_args\<lparr>log_to_console := Some False, log_to_file := Some False\<rparr>) initial_state))
      = (Returns, snd (setup_logging (world_of Map.empty)
          (no_args\<lparr>log_to_console := Some False, log_to_file := Some False\<rparr>) initial_state))"
proof -
  let ?w = "world_of Map.empty"
  let ?r1 = "setup_logging ?w (no_args\<lparr>log_dir := Some ''blocked''\<rparr>) initial_state"
  let ?r2 = "setup_logging ?w (no_args\<lparr>log_to_console := Some False, log_to_file := Some False\<rparr>)
      initial_state"
  have nc: "\<not> is_configured initial_state" by (simp add: initial_state_def)
  have h1: "?r1 = (Returns, snd ?r1)"
    using example_blocked_run_returns by (simp add: prod_eq_iff)
  have h2: "?r2 = (Returns, snd ?r2)"
    using example_silent_run_returns by (simp add: prod_eq_iff)
  have "is_configured (snd ?r1) \<and> setup_logging ?w no_args (snd ?r1) = (Returns, snd ?r1)"
    using normal_return_sets_flag_for_good [OF nc h1] by blast
  moreover have "is_configured (snd ?r2) \<and> setup_logging ?w no_args (snd ?r2) = (Returns, snd ?r2)"
    using normal_return_sets_flag_for_good [OF nc h2] by blast
  ultimately show ?thesis
    using nc example_blocked_run_returns example_silent_run_returns by blast
qed

end
